theory Spec2Isabelle
  imports Main "HOL-Library.AList" "HOL-Library.Char_ord" "HOL-Library.List_Lexorder"
begin

section \<open>Python values the orchestration layer handles\<close>

text \<open>
  Exceptions are values: every \<open>raise\<close> of the source is an \<open>Inl\<close> branch of the
  model. The constructors are the exception classes the source names; \<open>OtherError\<close>
  carries the class name of any further subclass of \<open>Exception\<close> a backend may raise.
  The string is what \<open>str(e)\<close> gives. Strings are \<open>char list\<close>, one \<open>char\<close> per code
  point below 256; paths are strings in the normal form \<open>str(Path(p))\<close> gives.
\<close>

datatype exn =
    ValueError string
  | FileNotFoundError string
  | RuntimeError string
  | UnboundLocalError string
  | TypeError string
  | OtherError string string

fun exn_str :: "exn \<Rightarrow> string" where
  "exn_str (ValueError m) = m"
| "exn_str (FileNotFoundError m) = m"
| "exn_str (RuntimeError m) = m"
| "exn_str (UnboundLocalError m) = m"
| "exn_str (TypeError m) = m"
| "exn_str (OtherError cls m) = m"

fun is_ValueError :: "exn \<Rightarrow> bool" where
  "is_ValueError (ValueError m) = True"
| "is_ValueError e = False"

fun is_FileNotFoundError :: "exn \<Rightarrow> bool" where
  "is_FileNotFoundError (FileNotFoundError m) = True"
| "is_FileNotFoundError e = False"

fun is_UnboundLocalError :: "exn \<Rightarrow> bool" where
  "is_UnboundLocalError (UnboundLocalError m) = True"
| "is_UnboundLocalError e = False"

text \<open>The apostrophe of the f-strings \<open>'{library}'\<close>.\<close>

definition apos :: char where
  "apos = CHR 0x27"

text \<open>
  \<open>repr\<close> of a \<open>str\<close>, which an f-string applies to the elements of a list: double
  quotes when the string has an apostrophe and no double quote, single quotes otherwise;
  backslash, the chosen quote, newline, carriage return and tab are escaped, other
  unprintable code points are written \<open>\xhh\<close>.
\<close>

definition hex_digit :: "nat \<Rightarrow> char" where
  "hex_digit n = ''0123456789abcdef'' ! (n mod 16)"

definition repr_char :: "char \<Rightarrow> char \<Rightarrow> string" where
  "repr_char q c =
     (let n = (of_char c :: nat) in
      if c = CHR 0x5C then [CHR 0x5C, CHR 0x5C]
      else if c = q then [CHR 0x5C, q]
      else if n = 10 then [CHR 0x5C, CHR ''n'']
      else if n = 13 then [CHR 0x5C, CHR ''r'']
      else if n = 9 then [CHR 0x5C, CHR ''t'']
      else if n < 32 \<or> (127 \<le> n \<and> n \<le> 160) \<or> n = 173
        then [CHR 0x5C, CHR ''x'', hex_digit (n div 16), hex_digit n]
      else [c])"

definition py_repr :: "string \<Rightarrow> string" where
  "py_repr s =
     (let q = (if apos \<in> set s \<and> CHR 0x22 \<notin> set s then CHR 0x22 else apos)
      in [q] @ concat (map (repr_char q) s) @ [q])"

fun join_comma :: "string list \<Rightarrow> string" where
  "join_comma [] = []"
| "join_comma [x] = x"
| "join_comma (x # y # ys) = x @ '', '' @ join_comma (y # ys)"

definition py_repr_list :: "string list \<Rightarrow> string" where
  "py_repr_list xs = ''['' @ join_comma (map py_repr xs) @ '']''"

text \<open>
  A conversion result is a \<open>str\<close> (markdown, text) or a structured record (JSON).
  The structured records are values of a type \<open>'d\<close> the model does not look into.
\<close>

datatype 'd content = Str string | Obj 'd

subsection \<open>\<open>services.base.OutputFormat\<close>\<close>

text \<open>
  Modelled from the spec: the enum \<open>OutputFormat\<close> is declared in \<open>services/base.py\<close>,
  which is not among the sources. Its members are the formats the docstrings of
  \<open>PDFStract.convert\<close> list ('markdown', 'json', 'text', or 'html') and the branches of
  \<open>OCRFactory.convert_async\<close> name. \<open>OutputFormat_of\<close> is the enum's constructor from a
  value, which raises \<open>ValueError\<close> on a string that is no member's value.
\<close>

datatype OutputFormat = MARKDOWN | JSON | TEXT | HTML

fun OutputFormat_value :: "OutputFormat \<Rightarrow> string" where
  "OutputFormat_value MARKDOWN = ''markdown''"
| "OutputFormat_value JSON = ''json''"
| "OutputFormat_value TEXT = ''text''"
| "OutputFormat_value HTML = ''html''"

fun OutputFormat_str :: "OutputFormat \<Rightarrow> string" where
  "OutputFormat_str MARKDOWN = ''OutputFormat.MARKDOWN''"
| "OutputFormat_str JSON = ''OutputFormat.JSON''"
| "OutputFormat_str TEXT = ''OutputFormat.TEXT''"
| "OutputFormat_str HTML = ''OutputFormat.HTML''"

definition OutputFormat_of :: "string \<Rightarrow> exn + OutputFormat" where
  "OutputFormat_of s =
     (if s = ''markdown'' then Inr MARKDOWN
      else if s = ''json'' then Inr JSON
      else if s = ''text'' then Inr TEXT
      else if s = ''html'' then Inr HTML
      else Inl (ValueError (py_repr s @ '' is not a valid OutputFormat'')))"

text \<open>
  \<open>asyncio.run(coro)\<close> runs a coroutine to completion on the calling thread and hands
  back its result or its exception; when the calling thread is already running an event
  loop it raises \<open>RuntimeError\<close> and the coroutine never runs. A coroutine of the model
  is the value it completes with, and \<open>running_loop\<close> says whether the calling thread
  runs an event loop.
\<close>

definition asyncio_run :: "bool \<Rightarrow> exn + 'a \<Rightarrow> exn + 'a" where
  "asyncio_run running_loop coro =
     (if running_loop then
        Inl (RuntimeError ''asyncio.run() cannot be called from a running event loop'')
      else coro)"

section \<open>The capability interface\<close>

text \<open>
  A converter object, as the factory uses it (\<open>services.base.PDFConverter\<close>): its
  properties and its three capability methods, each of which returns or raises.
\<close>

record 'd converter =
  name :: string
  available :: bool
  error_message :: "string option"
  supports_format :: "OutputFormat \<Rightarrow> bool"
  convert_to_md :: "string \<Rightarrow> exn + string"
  convert_to_json :: "string \<Rightarrow> exn + 'd"
  convert_to_text :: "string \<Rightarrow> exn + string"

section \<open>\<open>services/ocrfactory.py\<close>\<close>

text \<open>
  \<open>db_service.get_enabled_libraries()\<close> returns the enabled names or raises; the
  factory reads it anew at every build and listing.
\<close>

record DatabaseService =
  get_enabled_libraries :: "exn + string list"

text \<open>\<open>_converters\<close> is a \<open>dict\<close>: an association list in insertion order.\<close>

record 'd OCRFactory =
  converters :: "(string \<times> 'd converter) list"
  db_service :: DatabaseService

text \<open>
  A local variable is \<open>None\<close> while unbound. After the \<open>except\<close> branch of
  \<open>try: enabled_libraries = set(...)\<close> the variable is unbound.
\<close>

definition load_enabled_libraries :: "DatabaseService \<Rightarrow> string set option" where
  "load_enabled_libraries db =
     (case get_enabled_libraries db of
        Inl e \<Rightarrow> None
      | Inr libs \<Rightarrow> Some (set libs))"

definition unbound_enabled_libraries :: exn where
  "unbound_enabled_libraries = UnboundLocalError
     (''cannot access local variable '' @ [apos] @ ''enabled_libraries'' @ [apos]
        @ '' where it is not associated with a value'')"

text \<open>The \<open>for converter in all_converters\<close> loop of \<open>_register_default_converters\<close>.\<close>

fun register_loop ::
  "string set \<Rightarrow> 'd converter list \<Rightarrow> (string \<times> 'd converter) list
     \<Rightarrow> (string \<times> 'd converter) list" where
  "register_loop enabled [] regs = regs"
| "register_loop enabled (c # cs) regs =
     (if name c \<notin> enabled then register_loop enabled cs regs
      else if available c then register_loop enabled cs (AList.update (name c) c regs)
      else register_loop enabled cs regs)"

text \<open>
  \<open>_register_default_converters\<close>. \<open>all_converters\<close> is the list of instances the eight
  constructors give; their classes are not among the sources, so the list is an
  argument. The result is the exception or \<open>None\<close>, with the factory as it is left.
\<close>

definition OCRFactory_register_default_converters ::
  "'d converter list \<Rightarrow> 'd OCRFactory \<Rightarrow> (exn + unit) \<times> 'd OCRFactory" where
  "OCRFactory_register_default_converters all_converters self =
     (case load_enabled_libraries (db_service self) of
        None \<Rightarrow> (Inl unbound_enabled_libraries, self)
      | Some enabled_libraries \<Rightarrow>
          if card enabled_libraries = 0 then (Inr (), self)
          else (Inr (),
                self\<lparr>converters :=
                  register_loop enabled_libraries all_converters (converters self)\<rparr>))"

text \<open>\<open>__init__\<close> with a \<open>db_service\<close> given: the object exists only if nothing is raised.\<close>

definition OCRFactory_init ::
  "'d converter list \<Rightarrow> DatabaseService \<Rightarrow> exn + 'd OCRFactory" where
  "OCRFactory_init all_converters db =
     (case OCRFactory_register_default_converters all_converters
             \<lparr>converters = [], db_service = db\<rparr> of
        (Inl e, self) \<Rightarrow> Inl e
      | (Inr u, self) \<Rightarrow> Inr self)"

definition OCRFactory_refresh_converters ::
  "'d converter list \<Rightarrow> 'd OCRFactory \<Rightarrow> (exn + unit) \<times> 'd OCRFactory" where
  "OCRFactory_refresh_converters all_converters self =
     OCRFactory_register_default_converters all_converters (self\<lparr>converters := []\<rparr>)"

definition OCRFactory_get_converter :: "'d OCRFactory \<Rightarrow> string \<Rightarrow> 'd converter option" where
  "OCRFactory_get_converter self nm = map_of (converters self) nm"

definition OCRFactory_list_available_converters :: "'d OCRFactory \<Rightarrow> string list" where
  "OCRFactory_list_available_converters self = map fst (converters self)"

record converter_info =
  info_name :: string
  info_available :: bool
  info_error :: "string option"
  info_enabled :: bool

definition all_converter_names :: "string list" where
  "all_converter_names =
     [''pymupdf4llm'', ''markitdown'', ''marker'', ''docling'', ''paddleocr'',
      ''deepseekocr'', ''pytesseract'', ''unstructured'']"

text \<open>
  One entry of the listing. \<open>getattr(converter, "error_message", "Unavailable")\<close> is
  the default when the name is not registered. \<open>name in enabled_libraries\<close> is the last
  item of the dict literal and raises when the variable is unbound.
\<close>

definition converter_entry ::
  "'d OCRFactory \<Rightarrow> string set option \<Rightarrow> string \<Rightarrow> exn + converter_info" where
  "converter_entry self enabled_libraries nm =
     (let converter = map_of (converters self) nm;
          avail = (case converter of None \<Rightarrow> False | Some c \<Rightarrow> available c);
          err = (if avail then None
                 else (case converter of
                         None \<Rightarrow> Some ''Unavailable''
                       | Some c \<Rightarrow> error_message c))
      in case enabled_libraries of
           None \<Rightarrow> Inl unbound_enabled_libraries
         | Some en \<Rightarrow>
             Inr \<lparr>info_name = nm, info_available = avail, info_error = err,
                  info_enabled = (nm \<in> en)\<rparr>)"

fun list_all_loop ::
  "'d OCRFactory \<Rightarrow> string set option \<Rightarrow> string list \<Rightarrow> converter_info list
     \<Rightarrow> exn + converter_info list" where
  "list_all_loop self enabled_libraries [] result = Inr result"
| "list_all_loop self enabled_libraries (nm # rest) result =
     (case converter_entry self enabled_libraries nm of
        Inl e \<Rightarrow> Inl e
      | Inr d \<Rightarrow> list_all_loop self enabled_libraries rest (result @ [d]))"

definition OCRFactory_list_all_converters :: "'d OCRFactory \<Rightarrow> exn + converter_info list" where
  "OCRFactory_list_all_converters self =
     list_all_loop self (load_enabled_libraries (db_service self)) all_converter_names []"

text \<open>\<open>convert_async\<close>: resolve, check the format, dispatch on the format.\<close>

definition OCRFactory_convert_async ::
  "'d OCRFactory \<Rightarrow> string \<Rightarrow> string \<Rightarrow> OutputFormat \<Rightarrow> exn + 'd content" where
  "OCRFactory_convert_async self converter_name file_path output_format =
     (case OCRFactory_get_converter self converter_name of
        None \<Rightarrow> Inl (ValueError
          (''Converter '' @ [apos] @ converter_name @ [apos] @ '' is not available''))
      | Some converter \<Rightarrow>
          if \<not> supports_format converter output_format then
            Inl (ValueError
              (''Converter '' @ [apos] @ converter_name @ [apos]
                 @ '' does not support format '' @ [apos]
                 @ OutputFormat_value output_format @ [apos]))
          else if output_format = MARKDOWN then
            map_sum id Str (convert_to_md converter file_path)
          else if output_format = JSON then
            map_sum id Obj (convert_to_json converter file_path)
          else if output_format = TEXT then
            map_sum id Str (convert_to_text converter file_path)
          else Inl (ValueError
            (''Unsupported output format: '' @ OutputFormat_str output_format)))"

text \<open>\<open>convert\<close>: the synchronous wrapper, \<open>asyncio.run(self.convert_async(...))\<close>.\<close>

definition OCRFactory_convert ::
  "bool \<Rightarrow> 'd OCRFactory \<Rightarrow> string \<Rightarrow> string \<Rightarrow> OutputFormat \<Rightarrow> exn + 'd content" where
  "OCRFactory_convert running_loop self converter_name file_path output_format =
     asyncio_run running_loop
       (OCRFactory_convert_async self converter_name file_path output_format)"

section \<open>\<open>pdfstract/api.py\<close>\<close>

text \<open>
  The file system the API looks at: \<open>Path.exists\<close>, and the names of the entries of a
  directory that \<open>glob("*.pdf")\<close> yields, in the order the operating system gives them.
\<close>

record filesystem =
  path_exists :: "string \<Rightarrow> bool"
  glob_pdf :: "string \<Rightarrow> string list"

text \<open>
  \<open>self._factory\<close> is a \<open>CLILazyFactory\<close> (\<open>services/cli_factory.py\<close>, not among the
  sources). The API calls four of its methods, which are the fields here; the
  \<open>OCRFactory\<close> above offers the same four. The synchronous \<open>convert\<close> is told
  whether the thread that calls it is running an event loop.
\<close>

record ('c, 'd) factory =
  f_get_converter :: "string \<Rightarrow> 'c option"
  f_list_available_converters :: "string list"
  f_convert :: "bool \<Rightarrow> string \<Rightarrow> string \<Rightarrow> OutputFormat \<Rightarrow> exn + 'd content"
  f_convert_async :: "string \<Rightarrow> string \<Rightarrow> OutputFormat \<Rightarrow> exn + 'd content"

definition OCRFactory_ops :: "'d OCRFactory \<Rightarrow> ('d converter, 'd) factory" where
  "OCRFactory_ops self =
     \<lparr>f_get_converter = OCRFactory_get_converter self,
      f_list_available_converters = OCRFactory_list_available_converters self,
      f_convert = (\<lambda>running_loop. OCRFactory_convert running_loop self),
      f_convert_async = OCRFactory_convert_async self\<rparr>"

definition library_not_available :: "('c, 'd) factory \<Rightarrow> string \<Rightarrow> exn" where
  "library_not_available fac library =
     ValueError (''Library '' @ [apos] @ library @ [apos] @ '' not available. Available: ''
                   @ py_repr_list (f_list_available_converters fac))"

definition conversion_failed :: "exn \<Rightarrow> exn" where
  "conversion_failed e = ValueError (''Conversion failed: '' @ exn_str e)"

text \<open>
  \<open>PDFStract.convert\<close>: the library first, then the file, then the \<open>try\<close> block, which
  holds both \<open>OutputFormat(output_format)\<close> and the factory's synchronous \<open>convert\<close>,
  called on the caller's thread.
\<close>

definition PDFStract_convert ::
  "bool \<Rightarrow> filesystem \<Rightarrow> ('c, 'd) factory \<Rightarrow> string \<Rightarrow> string \<Rightarrow> string
     \<Rightarrow> exn + 'd content" where
  "PDFStract_convert running_loop fs fac pdf_path library output_format =
     (case f_get_converter fac library of
        None \<Rightarrow> Inl (library_not_available fac library)
      | Some converter \<Rightarrow>
          if \<not> path_exists fs pdf_path then
            Inl (FileNotFoundError (''PDF file not found: '' @ pdf_path))
          else
            (case OutputFormat_of output_format of
               Inl e \<Rightarrow> Inl (conversion_failed e)
             | Inr fmt \<Rightarrow>
                 (case f_convert fac running_loop library pdf_path fmt of
                    Inl e \<Rightarrow> Inl (conversion_failed e)
                  | Inr r \<Rightarrow> Inr r)))"

text \<open>\<open>PDFStract.convert_async\<close>: the file first, then the library, then the \<open>try\<close> block.\<close>

definition PDFStract_convert_async ::
  "filesystem \<Rightarrow> ('c, 'd) factory \<Rightarrow> string \<Rightarrow> string \<Rightarrow> string \<Rightarrow> exn + 'd content" where
  "PDFStract_convert_async fs fac pdf_path library output_format =
     (if \<not> path_exists fs pdf_path then
        Inl (FileNotFoundError (''PDF file not found: '' @ pdf_path))
      else
        (case f_get_converter fac library of
           None \<Rightarrow> Inl (library_not_available fac library)
         | Some converter \<Rightarrow>
             (case OutputFormat_of output_format of
                Inl e \<Rightarrow> Inl (conversion_failed e)
              | Inr fmt \<Rightarrow>
                  (case f_convert_async fac library pdf_path fmt of
                     Inl e \<Rightarrow> Inl (conversion_failed e)
                   | Inr r \<Rightarrow> Inr r))))"

subsection \<open>\<open>batch_convert\<close>\<close>

text \<open>
  An entry of the \<open>results\<close> dict: the content a conversion produced, or the record
  \<open>{"error": message}\<close>.
\<close>

datatype 'd batch_entry = Produced "'d content" | ErrorRecord string

record 'd batch_result =
  success :: int
  failed :: int
  results :: "(string \<times> 'd batch_entry) list"

text \<open>
  \<open>pdf_dir / name\<close> as a string: the current directory \<open>.\<close> is dropped, and the
  roots \<open>/\<close> and \<open>//\<close>, the two normal forms that end in a slash, take no further
  slash.
\<close>

definition joinpath :: "string \<Rightarrow> string \<Rightarrow> string" where
  "joinpath d n =
     (if d = ''.'' then n
      else if d = ''/'' \<or> d = ''//'' then d @ n
      else d @ ''/'' @ n)"

text \<open>
  The helper \<open>convert_pdf\<close> of \<open>batch_convert\<close>. Its tuple
  \<open>(name, "success", None, result)\<close> or \<open>(name, "failed", str(e), None)\<close> is the name
  with \<open>Inr result\<close> or \<open>Inl (str(e))\<close>. It runs on a worker thread of the pool, which
  runs no event loop.
\<close>

definition batch_convert_pdf ::
  "('c, 'd) factory \<Rightarrow> string \<Rightarrow> OutputFormat \<Rightarrow> string \<Rightarrow> string
     \<Rightarrow> string \<times> (string + 'd content)" where
  "batch_convert_pdf fac library output_format_enum pdf_dir pdf_name =
     (case f_convert fac False library (joinpath pdf_dir pdf_name) output_format_enum of
        Inr result \<Rightarrow> (pdf_name, Inr result)
      | Inl e \<Rightarrow> (pdf_name, Inl (exn_str e)))"

text \<open>The \<open>for future in futures\<close> loop: the outcomes in the order of submission.\<close>

fun batch_collect ::
  "(string \<times> (string + 'd content)) list \<Rightarrow> 'd batch_result \<Rightarrow> 'd batch_result" where
  "batch_collect [] res = res"
| "batch_collect ((filename, Inr result) # rest) res =
     batch_collect rest
       (res\<lparr>success := success res + 1,
            results := AList.update filename (Produced result) (results res)\<rparr>)"
| "batch_collect ((filename, Inl err) # rest) res =
     batch_collect rest
       (res\<lparr>failed := failed res + 1,
            results := AList.update filename (ErrorRecord err) (results res)\<rparr>)"

text \<open>
  \<open>batch_convert\<close>. The files of one directory are sorted as paths, which is the order
  of their names. \<open>ThreadPoolExecutor(max_workers=n)\<close> raises \<open>ValueError\<close> for
  \<open>n \<le> 0\<close>. Each worker runs the helper on one file; the model runs them in turn.
\<close>

definition PDFStract_batch_convert ::
  "filesystem \<Rightarrow> ('c, 'd) factory \<Rightarrow> string \<Rightarrow> string \<Rightarrow> string \<Rightarrow> int
     \<Rightarrow> exn + 'd batch_result" where
  "PDFStract_batch_convert fs fac pdf_directory library output_format parallel_workers =
     (if \<not> path_exists fs pdf_directory then
        Inl (ValueError (''Directory not found: '' @ pdf_directory))
      else
        (let pdf_files = sort (glob_pdf fs pdf_directory) in
         if pdf_files = [] then Inr \<lparr>success = 0, failed = 0, results = []\<rparr>
         else
           (case f_get_converter fac library of
              None \<Rightarrow> Inl (library_not_available fac library)
            | Some converter \<Rightarrow>
                (case OutputFormat_of output_format of
                   Inl e \<Rightarrow> Inl e
                 | Inr output_format_enum \<Rightarrow>
                     if parallel_workers \<le> 0 then
                       Inl (ValueError ''max_workers must be greater than 0'')
                     else
                       Inr (batch_collect
                              (map (batch_convert_pdf fac library output_format_enum
                                      pdf_directory) pdf_files)
                              \<lparr>success = 0, failed = 0, results = []\<rparr>)))))"

subsection \<open>The chunking API\<close>

text \<open>
  The chunker factory (\<open>services/chunker_factory.py\<close>, not among the sources) by the
  methods the API calls. \<open>get_default_chunker\<close> gives a chunker instance or \<open>None\<close>; the
  API reads only the instance's \<open>name\<close>, which stands for it here.
\<close>

record ('k, 'o, 'r) chunker_factory =
  list_available_chunkers :: "string list"
  get_default_chunker :: "string option"
  chunk_with_result :: "string \<Rightarrow> string \<Rightarrow> 'k \<Rightarrow> exn + 'o"
  to_dict :: "'o \<Rightarrow> 'r"

text \<open>\<open>str.isspace\<close> on the code points below 256, and \<open>str.strip()\<close>.\<close>

definition is_space :: "char \<Rightarrow> bool" where
  "is_space c =
     (let n = (of_char c :: nat) in
      (9 \<le> n \<and> n \<le> 13) \<or> (28 \<le> n \<and> n \<le> 32) \<or> n = 133 \<or> n = 160)"

definition py_strip :: "string \<Rightarrow> string" where
  "py_strip s = rev (dropWhile is_space (rev (dropWhile is_space s)))"

definition chunker_not_available :: "string \<Rightarrow> string list \<Rightarrow> exn" where
  "chunker_not_available chunker avail =
     ValueError (''Chunker '' @ [apos] @ chunker @ [apos] @ '' not available. Available: ''
                   @ py_repr_list avail)"

definition PDFStract_chunk_text_async ::
  "('k, 'o, 'r) chunker_factory \<Rightarrow> string \<Rightarrow> string \<Rightarrow> 'k \<Rightarrow> exn + 'r" where
  "PDFStract_chunk_text_async cf text chunker kwargs =
     (let avail = list_available_chunkers cf in
      case (if chunker = ''auto'' then
              (case get_default_chunker cf of
                 None \<Rightarrow> Inl (ValueError ''No available chunkers found for auto-selection'')
               | Some instance_name \<Rightarrow> Inr instance_name)
            else Inr chunker) of
        Inl e \<Rightarrow> Inl e
      | Inr chunker' \<Rightarrow>
          if chunker' \<notin> set avail then Inl (chunker_not_available chunker' avail)
          else if text = [] \<or> py_strip text = [] then
            Inl (ValueError ''Text cannot be empty'')
          else map_sum id (to_dict cf) (chunk_with_result cf chunker' text kwargs))"

definition PDFStract_chunk_text ::
  "bool \<Rightarrow> ('k, 'o, 'r) chunker_factory \<Rightarrow> string \<Rightarrow> string \<Rightarrow> 'k \<Rightarrow> exn + 'r" where
  "PDFStract_chunk_text running_loop cf text chunker kwargs =
     asyncio_run running_loop (PDFStract_chunk_text_async cf text chunker kwargs)"

subsection \<open>The combined pipeline\<close>








section \<open>\<open>services/converters/mineru_converter.py\<close>\<close>

text \<open>
  Modelled from the spec: the enum \<open>DownloadStatus\<close> is declared in \<open>services/base.py\<close>,
  which is not among the sources; the spec gives its members as
  \<open>{NOT_REQUIRED, PENDING, DOWNLOADING, READY, FAILED}\<close>.
\<close>

datatype DownloadStatus = NOT_REQUIRED | PENDING | DOWNLOADING | READY | FAILED

text \<open>The instance attributes \<open>__init__\<close> sets.\<close>

record MinerUConverter =
  mu_initialized :: bool
  mu_download_status :: DownloadStatus
  mu_download_error :: "string option"
  mu_is_downloading :: bool

definition MinerU_init :: MinerUConverter where
  "MinerU_init =
     \<lparr>mu_initialized = True, mu_download_status = NOT_REQUIRED,
      mu_download_error = None, mu_is_downloading = False\<rparr>"

text \<open>
  What the converter reads from outside: the module constant \<open>MINERU_AVAILABLE\<close> (the
  outcome of \<open>mineru --help\<close> at import), \<open>Path.resolve\<close> and \<open>Path.exists\<close>, and the run
  of the command, which raises (a timeout) or gives the exit code, both output
  streams and the files found under the output directory, by relative path, in the
  order \<open>rglob\<close> walks them. \<open>supports_format\<close> is inherited from the base class and
  the regular expressions of \<open>convert_to_text\<close> are \<open>strip_markdown\<close>.
\<close>

record cli_run =
  returncode :: int
  stdout :: string
  stderr :: string
  out_files :: "(string \<times> string) list"

record mineru_env =
  MINERU_AVAILABLE :: bool
  resolve :: "string \<Rightarrow> string"
  input_exists :: "string \<Rightarrow> bool"
  run_cli :: "string \<Rightarrow> exn + cli_run"
  base_supports_format :: "OutputFormat \<Rightarrow> bool"
  strip_markdown :: "string \<Rightarrow> string"

definition MinerU_name :: string where
  "MinerU_name = ''mineru''"

definition MinerU_available :: "mineru_env \<Rightarrow> MinerUConverter \<Rightarrow> bool" where
  "MinerU_available env self = MINERU_AVAILABLE env"

definition MinerU_error_message :: "mineru_env \<Rightarrow> MinerUConverter \<Rightarrow> string option" where
  "MinerU_error_message env self =
     (if \<not> MINERU_AVAILABLE env then
        Some (''Install with: pip install '' @ [apos] @ ''magic-pdf[full]'' @ [apos]
                @ ''. Use Docker for full support.'')
      else None)"

definition MinerU_requires_download :: "MinerUConverter \<Rightarrow> bool" where
  "MinerU_requires_download self = False"

definition MinerU_download_status :: "MinerUConverter \<Rightarrow> DownloadStatus" where
  "MinerU_download_status self = NOT_REQUIRED"

definition MinerU_download_error :: "MinerUConverter \<Rightarrow> string option" where
  "MinerU_download_error self = mu_download_error self"

text \<open>\<open>prepare\<close>: the value returned and the converter as it is left.\<close>

definition MinerU_prepare :: "mineru_env \<Rightarrow> MinerUConverter \<Rightarrow> bool \<times> MinerUConverter" where
  "MinerU_prepare env self = (MINERU_AVAILABLE env, self)"

text \<open>Decimal digits of an \<open>int\<close>, for \<open>f"Exit code {result.returncode}"\<close>.\<close>

fun show_nat :: "nat \<Rightarrow> string" where
  "show_nat n =
     (if n < 10 then [''0123456789'' ! n]
      else show_nat (n div 10) @ [''0123456789'' ! (n mod 10)])"

definition show_int :: "int \<Rightarrow> string" where
  "show_int i = (if i < 0 then ''-'' @ show_nat (nat (- i)) else show_nat (nat i))"

text \<open>\<open>Path.name\<close> and \<open>Path.stem\<close>.\<close>

definition path_name :: "string \<Rightarrow> string" where
  "path_name p = rev (takeWhile (\<lambda>c. c \<noteq> CHR ''/'') (rev p))"

definition path_stem :: "string \<Rightarrow> string" where
  "path_stem p =
     (let nm = path_name p;
          suffix_len = length (takeWhile (\<lambda>c. c \<noteq> CHR ''.'') (rev nm))
      in if CHR ''.'' \<in> set nm \<and> suffix_len + 1 < length nm \<and> 0 < suffix_len
         then take (length nm - suffix_len - 1) nm
         else nm)"

definition ends_with_md :: "string \<Rightarrow> bool" where
  "ends_with_md p = (take 3 (rev (path_name p)) = rev ''.md'')"

text \<open>\<open>a or b or c\<close> on strings: the first that is not empty, else the last.\<close>

definition first_nonempty :: "string \<Rightarrow> string \<Rightarrow> string \<Rightarrow> string" where
  "first_nonempty a b c = (if a \<noteq> [] then a else if b \<noteq> [] then b else c)"

text \<open>
  \<open>_convert_sync\<close>: the input must exist, the command must exit with 0, and the
  markdown is read from \<open>stem/stem.md\<close>, from \<open>stem.md\<close>, or from the first \<open>*.md\<close> file
  found; otherwise \<open>RuntimeError\<close>.
\<close>

definition MinerU_convert_sync :: "mineru_env \<Rightarrow> string \<Rightarrow> string \<Rightarrow> exn + string" where
  "MinerU_convert_sync env file_path output_format =
     (let input_path = resolve env file_path in
      if \<not> input_exists env input_path then
        Inl (RuntimeError (''MinerU: Input file not found: '' @ file_path))
      else
        (case run_cli env input_path of
           Inl e \<Rightarrow> Inl e
         | Inr result \<Rightarrow>
             if returncode result \<noteq> 0 then
               Inl (RuntimeError
                 (''MinerU CLI failed: ''
                    @ first_nonempty (stderr result) (stdout result)
                        (''Exit code '' @ show_int (returncode result))))
             else
               (let stem = path_stem input_path in
                case map_of (out_files result) (stem @ ''/'' @ stem @ ''.md'') of
                  Some content \<Rightarrow> Inr content
                | None \<Rightarrow>
                    (case map_of (out_files result) (stem @ ''.md'') of
                       Some content \<Rightarrow> Inr content
                     | None \<Rightarrow>
                         (case filter (\<lambda>f. ends_with_md (fst f)) (out_files result) of
                            f # fs \<Rightarrow> Inr (snd f)
                          | [] \<Rightarrow>
                              Inl (RuntimeError
                                ''MinerU: No markdown output generated''))))))"

definition MinerU_convert_to_md ::
  "mineru_env \<Rightarrow> MinerUConverter \<Rightarrow> string \<Rightarrow> exn + string" where
  "MinerU_convert_to_md env self file_path =
     (if \<not> MinerU_available env self then Inl (RuntimeError ''MinerU is not available'')
      else
        (case MinerU_convert_sync env file_path ''markdown'' of
           Inr md \<Rightarrow> Inr md
         | Inl e \<Rightarrow> Inl (RuntimeError (''MinerU conversion failed: '' @ exn_str e))))"

definition MinerU_convert_to_json ::
  "mineru_env \<Rightarrow> MinerUConverter \<Rightarrow> string \<Rightarrow> exn + (string \<times> string) list" where
  "MinerU_convert_to_json env self file_path =
     (if \<not> MinerU_available env self then Inl (RuntimeError ''MinerU is not available'')
      else
        (case MinerU_convert_to_md env self file_path of
           Inl e \<Rightarrow> Inl e
         | Inr md_content \<Rightarrow>
             Inr [(''content'', md_content), (''format'', ''markdown''),
                  (''library'', MinerU_name)]))"

definition MinerU_convert_to_text ::
  "mineru_env \<Rightarrow> MinerUConverter \<Rightarrow> string \<Rightarrow> exn + string" where
  "MinerU_convert_to_text env self file_path =
     map_sum id (strip_markdown env) (MinerU_convert_to_md env self file_path)"

text \<open>The MinerU converter as the factory sees it.\<close>

definition MinerU_converter ::
  "mineru_env \<Rightarrow> MinerUConverter \<Rightarrow> (string \<times> string) list converter" where
  "MinerU_converter env self =
     \<lparr>name = MinerU_name,
      available = MinerU_available env self,
      error_message = MinerU_error_message env self,
      supports_format = base_supports_format env,
      convert_to_md = MinerU_convert_to_md env self,
      convert_to_json = MinerU_convert_to_json env self,
      convert_to_text = MinerU_convert_to_text env self\<rparr>"

section \<open>The spec's words, for comparison with the code\<close>

text \<open>
  The synchronous entry point as the spec defines it: "run the asynchronous entry
  point to completion on the calling thread". \<open>PDFStract.chunk_text\<close>,
  \<open>PDFStract.convert_chunk\<close> and \<open>OCRFactory.convert\<close> are written this way;
  \<open>PDFStract.convert\<close> has a body of its own.
\<close>

definition convert_as_specified ::
  "bool \<Rightarrow> filesystem \<Rightarrow> ('c, 'd) factory \<Rightarrow> string \<Rightarrow> string \<Rightarrow> string
     \<Rightarrow> exn + 'd content" where
  "convert_as_specified running_loop fs fac pdf_path library output_format =
     asyncio_run running_loop
       (PDFStract_convert_async fs fac pdf_path library output_format)"

subsection \<open>The download lifecycle of a backend\<close>

text \<open>
  Modelled from the spec: the base class \<open>PDFConverter\<close> (\<open>services/base.py\<close>) and the
  backends that download a model before first use are not among the sources; the only
  backend there, MinerU, never downloads. The spec gives the lifecycle of a backend:
  its status is \<open>NOT_REQUIRED\<close> for good, or goes \<open>PENDING\<close>, \<open>DOWNLOADING\<close>, then
  \<open>READY\<close> or \<open>FAILED\<close> with a \<open>download_error\<close>; \<open>available\<close> is computed and holds
  only when the dependency is present and the status is \<open>NOT_REQUIRED\<close> or \<open>READY\<close>;
  \<open>prepare()\<close> returns the final availability, is a no-op on \<open>READY\<close> and
  \<open>NOT_REQUIRED\<close>, runs the download from \<open>PENDING\<close>, starts no second download while
  one is in flight but waits for its outcome, and tries again from \<open>FAILED\<close> when
  called. \<open>lc_download_attempts\<close> counts the downloads started; \<open>outcome\<close> is what a
  download ends with, \<open>None\<close> for success or the error message.
\<close>

record backend_lifecycle =
  lc_dependency_present :: bool
  lc_requires_download :: bool
  lc_download_status :: DownloadStatus
  lc_download_error :: "string option"
  lc_download_attempts :: nat

definition lifecycle_available :: "backend_lifecycle \<Rightarrow> bool" where
  "lifecycle_available b =
     (lc_dependency_present b
      \<and> (lc_download_status b = NOT_REQUIRED \<or> lc_download_status b = READY))"

definition start_download :: "backend_lifecycle \<Rightarrow> backend_lifecycle" where
  "start_download b =
     b\<lparr>lc_download_status := DOWNLOADING,
       lc_download_attempts := lc_download_attempts b + 1\<rparr>"

definition finish_download :: "string option \<Rightarrow> backend_lifecycle \<Rightarrow> backend_lifecycle" where
  "finish_download outcome b =
     (case outcome of
        None \<Rightarrow> b\<lparr>lc_download_status := READY, lc_download_error := None\<rparr>
      | Some err \<Rightarrow> b\<lparr>lc_download_status := FAILED, lc_download_error := Some err\<rparr>)"

definition lifecycle_prepare ::
  "string option \<Rightarrow> backend_lifecycle \<Rightarrow> bool \<times> backend_lifecycle" where
  "lifecycle_prepare outcome b =
     (case lc_download_status b of
        NOT_REQUIRED \<Rightarrow> (lifecycle_available b, b)
      | READY \<Rightarrow> (lifecycle_available b, b)
      | PENDING \<Rightarrow>
          (let b' = finish_download outcome (start_download b)
           in (lifecycle_available b', b'))
      | DOWNLOADING \<Rightarrow>
          (let b' = finish_download outcome b in (lifecycle_available b', b'))
      | FAILED \<Rightarrow>
          (let b' = finish_download outcome (start_download b)
           in (lifecycle_available b', b')))"

text \<open>The MinerU converter of the sources, seen as a backend of that lifecycle.\<close>

definition MinerU_lifecycle :: "mineru_env \<Rightarrow> MinerUConverter \<Rightarrow> backend_lifecycle" where
  "MinerU_lifecycle env self =
     \<lparr>lc_dependency_present = MinerU_available env self,
      lc_requires_download = MinerU_requires_download self,
      lc_download_status = MinerU_download_status self,
      lc_download_error = MinerU_download_error self,
      lc_download_attempts = 0\<rparr>"

section \<open>Sample objects\<close>


definition sample_converter :: "string converter" where
  "sample_converter =
     \<lparr>name = ''marker'', available = True, error_message = None,
      supports_format = (\<lambda>f. f \<noteq> HTML),
      convert_to_md = (\<lambda>p. if p = ''docs/c.pdf'' then Inl (RuntimeError ''corrupt file'')
                            else Inr (''# '' @ p)),
      convert_to_json = (\<lambda>p. Inr p),
      convert_to_text = (\<lambda>p. Inr p)\<rparr>"

definition sample_fs :: filesystem where
  "sample_fs =
     \<lparr>path_exists = (\<lambda>p. p \<in> set [''docs'', ''empty'', ''docs/a.pdf'', ''docs/b.pdf'',
                                    ''docs/c.pdf'', ''docs/d.pdf'', ''docs/e.pdf'']),
      glob_pdf = (\<lambda>d. if d = ''docs''
                      then [''e.pdf'', ''a.pdf'', ''c.pdf'', ''b.pdf'', ''d.pdf'']
                      else [])\<rparr>"

definition sample_registry :: "string OCRFactory" where
  "sample_registry =
     \<lparr>converters = [(''marker'', sample_converter)],
      db_service = \<lparr>get_enabled_libraries = Inr [''marker'']\<rparr>\<rparr>"

definition empty_registry :: "string OCRFactory" where
  "empty_registry =
     \<lparr>converters = [], db_service = \<lparr>get_enabled_libraries = Inr []\<rparr>\<rparr>"

definition failing_db :: DatabaseService where
  "failing_db =
     \<lparr>get_enabled_libraries =
        Inl (OtherError ''OperationalError'' ''unable to open database file'')\<rparr>"

definition sample_chunkers :: "((string \<times> nat) list, string list, string list) chunker_factory" where
  "sample_chunkers =
     \<lparr>list_available_chunkers = [''token''],
      get_default_chunker = Some ''token'',
      chunk_with_result = (\<lambda>chunker text kwargs. Inr [text]),
      to_dict = (\<lambda>r. r)\<rparr>"

definition no_chunkers :: "((string \<times> nat) list, string list, string list) chunker_factory" where
  "no_chunkers =
     \<lparr>list_available_chunkers = [],
      get_default_chunker = None,
      chunk_with_result = (\<lambda>chunker text kwargs. Inr [text]),
      to_dict = (\<lambda>r. r)\<rparr>"


definition pending_backend :: backend_lifecycle where
  "pending_backend =
     \<lparr>lc_dependency_present = True, lc_requires_download = True,
      lc_download_status = PENDING, lc_download_error = None,
      lc_download_attempts = 0\<rparr>"

definition sample_mineru_env :: mineru_env where
  "sample_mineru_env =
     \<lparr>MINERU_AVAILABLE = True,
      resolve = (\<lambda>p. ''/work/'' @ p),
      input_exists = (\<lambda>p. p = ''/work/a.pdf''),
      run_cli = (\<lambda>p. Inr \<lparr>returncode = 0, stdout = [], stderr = [],
                            out_files = [(''a/a.md'', ''# A'')]\<rparr>),
      base_supports_format = (\<lambda>f. f \<noteq> HTML),
      strip_markdown = (\<lambda>s. s)\<rparr>"

section \<open>Facts about the sample objects\<close>



lemma sample_registry_get:
  "OCRFactory_get_converter sample_registry ''marker'' = Some sample_converter"
  by (simp add: OCRFactory_get_converter_def sample_registry_def)

lemma empty_registry_get:
  "f_get_converter (OCRFactory_ops empty_registry) nm = None"
  by (simp add: OCRFactory_ops_def OCRFactory_get_converter_def empty_registry_def)

lemma empty_registry_not_available:
  "library_not_available (OCRFactory_ops empty_registry) ''backendX''
     = ValueError ''Library 'backendX' not available. Available: []''"
  by (simp add: library_not_available_def OCRFactory_ops_def
      OCRFactory_list_available_converters_def empty_registry_def py_repr_list_def apos_def)

lemma missing_pdf_absent: "\<not> path_exists sample_fs ''missing.pdf''"
  by (simp add: sample_fs_def)

lemma MinerU_sample_run:
  "MinerU_convert_to_md sample_mineru_env MinerU_init ''a.pdf'' = Inr ''# A''
   \<and> MinerU_convert_to_md sample_mineru_env MinerU_init ''b.pdf''
       = Inl (RuntimeError ''MinerU conversion failed: MinerU: Input file not found: b.pdf'')"
  by (simp add: MinerU_convert_to_md_def MinerU_available_def MinerU_convert_sync_def
      sample_mineru_env_def path_stem_def path_name_def Let_def)

section \<open>The registry\<close>

lemma register_empty_enabled:
  "get_enabled_libraries (db_service self) = Inr [] \<Longrightarrow>
   OCRFactory_register_default_converters all_converters self = (Inr (), self)"
  by (simp add: OCRFactory_register_default_converters_def load_enabled_libraries_def)

text \<open>
  C1. With an empty enabled set the build logs "Registering all converters" and
  returns at once: nothing is registered. Built over a backend whose \<open>available\<close> holds,
  the registry is empty, the backend does not resolve by name and the list of available
  names is empty.
\<close>

theorem C1_empty_enabled_set_registers_nothing:
  "available sample_converter
   \<and> OCRFactory_init [sample_converter] \<lparr>get_enabled_libraries = Inr []\<rparr> = Inr empty_registry
   \<and> OCRFactory_get_converter empty_registry (name sample_converter) = None
   \<and> OCRFactory_list_available_converters empty_registry = []"
  by (simp add: OCRFactory_init_def OCRFactory_register_default_converters_def
      load_enabled_libraries_def empty_registry_def sample_converter_def
      OCRFactory_get_converter_def OCRFactory_list_available_converters_def)

lemma converter_entry_unbound:
  "converter_entry self None nm = Inl unbound_enabled_libraries"
  by (simp add: converter_entry_def Let_def)

text \<open>
  C10. When \<open>get_enabled_libraries\<close> raises, the \<open>except\<close> branch only logs, and the next
  read of \<open>enabled_libraries\<close> raises \<open>UnboundLocalError\<close>: in the build before anything
  is registered, in the listing at the first of the eight names. The build leaves the
  registry as it was, the constructor gives no object, a refresh leaves the registry
  emptied, and no default set of backends is put in place.
\<close>

theorem C10_enablement_source_raises:
  assumes "get_enabled_libraries (db_service self) = Inl e"
  shows "OCRFactory_register_default_converters all_converters self
           = (Inl unbound_enabled_libraries, self)
       \<and> OCRFactory_init all_converters (db_service self) = Inl unbound_enabled_libraries
       \<and> OCRFactory_refresh_converters all_converters self
           = (Inl unbound_enabled_libraries, self\<lparr>converters := []\<rparr>)
       \<and> OCRFactory_list_all_converters self = Inl unbound_enabled_libraries
       \<and> is_UnboundLocalError unbound_enabled_libraries"
proof -
  have l: "load_enabled_libraries (db_service self) = None"
    using assms by (simp add: load_enabled_libraries_def)
  have 1: "OCRFactory_register_default_converters all_converters self
             = (Inl unbound_enabled_libraries, self)"
    by (simp add: OCRFactory_register_default_converters_def l)
  have 2: "OCRFactory_init all_converters (db_service self) = Inl unbound_enabled_libraries"
    by (simp add: OCRFactory_init_def OCRFactory_register_default_converters_def l)
  have 3: "OCRFactory_refresh_converters all_converters self
             = (Inl unbound_enabled_libraries, self\<lparr>converters := []\<rparr>)"
    by (simp add: OCRFactory_refresh_converters_def OCRFactory_register_default_converters_def l)
  have 4: "OCRFactory_list_all_converters self = Inl unbound_enabled_libraries"
    by (simp add: OCRFactory_list_all_converters_def l converter_entry_unbound
        all_converter_names_def)
  have 5: "is_UnboundLocalError unbound_enabled_libraries"
    by (simp add: unbound_enabled_libraries_def)
  from 1 2 3 4 5 show ?thesis by simp
qed

theorem C10_enablement_source_raises_witness:
  "OCRFactory_init [sample_converter] failing_db = Inl unbound_enabled_libraries
   \<and> OCRFactory_refresh_converters [sample_converter] (sample_registry\<lparr>db_service := failing_db\<rparr>)
       = (Inl unbound_enabled_libraries, \<lparr>converters = [], db_service = failing_db\<rparr>)
   \<and> OCRFactory_list_all_converters (sample_registry\<lparr>db_service := failing_db\<rparr>)
       = Inl unbound_enabled_libraries"
proof -
  have h: "get_enabled_libraries (db_service (sample_registry\<lparr>db_service := failing_db\<rparr>))
             = Inl (OtherError ''OperationalError'' ''unable to open database file'')"
    by (simp add: failing_db_def)
  show ?thesis
    using C10_enablement_source_raises [OF h, of "[sample_converter]"]
    by (simp add: sample_registry_def)
qed

section \<open>The execution engine\<close>

lemma convert_unresolvable:
  "f_get_converter fac library = None \<Longrightarrow>
   PDFStract_convert running_loop fs fac pdf_path library output_format
     = Inl (library_not_available fac library)"
  by (simp add: PDFStract_convert_def)

lemma convert_missing_file:
  "f_get_converter fac library = Some c \<Longrightarrow> \<not> path_exists fs pdf_path \<Longrightarrow>
   PDFStract_convert running_loop fs fac pdf_path library output_format
     = Inl (FileNotFoundError (''PDF file not found: '' @ pdf_path))
   \<and> PDFStract_convert_async fs fac pdf_path library output_format
     = Inl (FileNotFoundError (''PDF file not found: '' @ pdf_path))"
  by (simp add: PDFStract_convert_def PDFStract_convert_async_def)

lemma convert_async_missing_file:
  "\<not> path_exists fs pdf_path \<Longrightarrow>
   PDFStract_convert_async fs fac pdf_path library output_format
     = Inl (FileNotFoundError (''PDF file not found: '' @ pdf_path))"
  by (simp add: PDFStract_convert_async_def)

text \<open>
  C3. The synchronous \<open>convert\<close> asks for the library before it looks at the file, as
  its comment says, on a thread with or without a running event loop. The asynchronous \<open>convert_async\<close> looks at the file first: with an
  unknown backend and a missing file it raises \<open>FileNotFoundError\<close>, where the
  synchronous one raises the \<open>ValueError\<close> of an unavailable library.
\<close>

theorem C3_async_checks_file_first:
  "f_get_converter (OCRFactory_ops empty_registry) ''backendX'' = None
   \<and> \<not> path_exists sample_fs ''missing.pdf''
   \<and> PDFStract_convert running_loop sample_fs (OCRFactory_ops empty_registry)
         ''missing.pdf'' ''backendX'' ''markdown''
       = Inl (ValueError ''Library 'backendX' not available. Available: []'')
   \<and> PDFStract_convert_async sample_fs (OCRFactory_ops empty_registry) ''missing.pdf''
         ''backendX'' ''markdown''
       = Inl (FileNotFoundError ''PDF file not found: missing.pdf'')"
  by (simp add: empty_registry_get missing_pdf_absent convert_unresolvable
      convert_async_missing_file empty_registry_not_available)

text \<open>
  Off the one input class where the order of the two checks shows, the body of
  \<open>PDFStract.convert\<close> does what the spec's wrapper does: on a thread without a running
  event loop, over a factory whose synchronous \<open>convert\<close> gives what its \<open>convert_async\<close>
  gives, the two agree whenever the backend resolves or the file exists.
\<close>

lemma convert_agrees_with_specified:
  assumes "f_convert fac False library pdf_path = f_convert_async fac library pdf_path"
    and "f_get_converter fac library \<noteq> None \<or> path_exists fs pdf_path"
  shows "PDFStract_convert False fs fac pdf_path library output_format
           = convert_as_specified False fs fac pdf_path library output_format"
  using assms
  by (auto simp: PDFStract_convert_def convert_as_specified_def asyncio_run_def
      PDFStract_convert_async_def split: option.splits sum.splits)

lemma OCRFactory_convert_is_async_run:
  "f_convert (OCRFactory_ops self) running_loop converter_name file_path fmt
     = asyncio_run running_loop
         (f_convert_async (OCRFactory_ops self) converter_name file_path fmt)"
  by (simp add: OCRFactory_ops_def OCRFactory_convert_def)

text \<open>
  On a thread that runs an event loop the wrapper raises the \<open>RuntimeError\<close> of
  \<open>asyncio.run\<close>; the body of \<open>PDFStract.convert\<close> meets that error inside its \<open>try\<close> and
  raises it again as a \<open>ValueError\<close>.
\<close>

lemma convert_under_running_loop:
  assumes "OCRFactory_get_converter self library = Some c"
    and "path_exists fs pdf_path"
    and "OutputFormat_of output_format = Inr fmt"
  shows "PDFStract_convert True fs (OCRFactory_ops self) pdf_path library output_format
           = Inl (ValueError (''Conversion failed: ''
                    @ ''asyncio.run() cannot be called from a running event loop''))
       \<and> convert_as_specified True fs (OCRFactory_ops self) pdf_path library output_format
           = Inl (RuntimeError ''asyncio.run() cannot be called from a running event loop'')"
  using assms
  by (simp add: PDFStract_convert_def convert_as_specified_def asyncio_run_def
      OCRFactory_ops_def OCRFactory_convert_def conversion_failed_def)

text \<open>
  C2. The synchronous \<open>PDFStract.convert\<close> is not the asynchronous entry point run to
  completion: it is a second body, with the two checks in the other order. At an
  unknown backend and a missing file, on a thread without a running event loop, it
  raises the \<open>ValueError\<close> of an unavailable library, where running \<open>convert_async\<close> to
  completion raises \<open>FileNotFoundError\<close>.
\<close>

theorem C2_convert_is_not_convert_async_run:
  "PDFStract_convert False sample_fs (OCRFactory_ops empty_registry) ''missing.pdf''
       ''backendX'' ''markdown''
     = Inl (ValueError ''Library 'backendX' not available. Available: []'')
   \<and> convert_as_specified False sample_fs (OCRFactory_ops empty_registry) ''missing.pdf''
       ''backendX'' ''markdown''
     = Inl (FileNotFoundError ''PDF file not found: missing.pdf'')"
  by (simp add: empty_registry_get missing_pdf_absent convert_unresolvable
      convert_as_specified_def asyncio_run_def convert_async_missing_file
      empty_registry_not_available)

text \<open>
  C6. When the backend resolves, the file exists, the format is supported and the
  capability method the factory dispatches to raises \<open>e\<close> (any subclass of \<open>Exception\<close>),
  both entry points (the synchronous one on a thread without a running event loop,
  where alone it reaches the dispatch) raise \<open>ValueError("Conversion failed: " + str(e))\<close>: the class of
  \<open>e\<close> is gone and its message is kept. The source has no class of its own for this
  kind; it is the \<open>ValueError\<close> whose message starts with "Conversion failed: ".
\<close>

theorem C6_backend_failure_wrapped:
  assumes "OCRFactory_get_converter self library = Some c"
    and "path_exists fs pdf_path"
    and "OutputFormat_of output_format = Inr fmt"
    and "supports_format c fmt"
    and "(fmt = MARKDOWN \<and> convert_to_md c pdf_path = Inl e)
         \<or> (fmt = JSON \<and> convert_to_json c pdf_path = Inl e)
         \<or> (fmt = TEXT \<and> convert_to_text c pdf_path = Inl e)"
  shows "PDFStract_convert False fs (OCRFactory_ops self) pdf_path library output_format
           = Inl (ValueError (''Conversion failed: '' @ exn_str e))
       \<and> PDFStract_convert_async fs (OCRFactory_ops self) pdf_path library output_format
           = Inl (ValueError (''Conversion failed: '' @ exn_str e))"
proof -
  have "OCRFactory_convert_async self library pdf_path fmt = Inl e"
    using assms(1,4,5) by (auto simp: OCRFactory_convert_async_def)
  then show ?thesis
    using assms(1,2,3)
    by (simp add: PDFStract_convert_def PDFStract_convert_async_def OCRFactory_ops_def
        OCRFactory_convert_def asyncio_run_def conversion_failed_def)
qed

theorem C6_backend_failure_wrapped_witness:
  "convert_to_md sample_converter ''docs/c.pdf'' = Inl (RuntimeError ''corrupt file'')
   \<and> PDFStract_convert False sample_fs (OCRFactory_ops sample_registry) ''docs/c.pdf''
         ''marker'' ''markdown''
       = Inl (ValueError ''Conversion failed: corrupt file'')
   \<and> PDFStract_convert_async sample_fs (OCRFactory_ops sample_registry) ''docs/c.pdf''
         ''marker'' ''markdown''
       = Inl (ValueError ''Conversion failed: corrupt file'')"
proof -
  have h2: "path_exists sample_fs ''docs/c.pdf''" by (simp add: sample_fs_def)
  have h3: "OutputFormat_of ''markdown'' = Inr MARKDOWN" by (simp add: OutputFormat_of_def)
  have h4: "supports_format sample_converter MARKDOWN" by (simp add: sample_converter_def)
  have f: "convert_to_md sample_converter ''docs/c.pdf'' = Inl (RuntimeError ''corrupt file'')"
    by (simp add: sample_converter_def)
  then have h5: "(MARKDOWN = MARKDOWN \<and> convert_to_md sample_converter ''docs/c.pdf''
                     = Inl (RuntimeError ''corrupt file''))
         \<or> (MARKDOWN = JSON \<and> convert_to_json sample_converter ''docs/c.pdf''
                     = Inl (RuntimeError ''corrupt file''))
         \<or> (MARKDOWN = TEXT \<and> convert_to_text sample_converter ''docs/c.pdf''
                     = Inl (RuntimeError ''corrupt file''))"
    by simp
  show ?thesis
    using f C6_backend_failure_wrapped [OF sample_registry_get h2 h3 h4 h5] by simp
qed

text \<open>
  The MinerU backend raises only \<open>RuntimeError\<close> from \<open>convert_to_md\<close>: what
  \<open>_convert_sync\<close> raises is caught and raised again with its message.
\<close>

lemma MinerU_convert_to_md_raises:
  "MinerU_convert_to_md env self file_path = Inl e \<Longrightarrow> \<exists>m. e = RuntimeError m"
  by (auto simp: MinerU_convert_to_md_def split: if_splits sum.splits)

section \<open>The batch engine\<close>










text \<open>
  C5. When the directory exists and holds no \<open>*.pdf\<close> entry, \<open>batch_convert\<close> returns
  \<open>{success: 0, failed: 0, results: {}}\<close>. The result is the same for every factory,
  library name, format string and worker count: the return comes before the factory is
  asked for the backend, so an unknown backend raises nothing.
\<close>

theorem C5_empty_batch:
  assumes "path_exists fs pdf_directory"
    and "glob_pdf fs pdf_directory = []"
  shows "PDFStract_batch_convert fs fac pdf_directory library output_format parallel_workers
           = Inr \<lparr>success = 0, failed = 0, results = []\<rparr>"
  using assms by (simp add: PDFStract_batch_convert_def)

theorem C5_empty_batch_witness:
  "f_get_converter (OCRFactory_ops empty_registry) ''anyBackend'' = None
   \<and> PDFStract_batch_convert sample_fs (OCRFactory_ops empty_registry) ''empty''
         ''anyBackend'' ''markdown'' 4
       = Inr \<lparr>success = 0, failed = 0, results = []\<rparr>"
proof -
  have h1: "path_exists sample_fs ''empty''" by (simp add: sample_fs_def)
  have h2: "glob_pdf sample_fs ''empty'' = []" by (simp add: sample_fs_def)
  have "f_get_converter (OCRFactory_ops empty_registry) ''anyBackend'' = None"
    by (simp add: OCRFactory_ops_def OCRFactory_get_converter_def empty_registry_def)
  then show ?thesis using C5_empty_batch [OF h1 h2] by simp
qed

section \<open>The combined pipeline\<close>




section \<open>The chunking API\<close>

lemma strip_all_space:
  "dropWhile P (rev (dropWhile P xs)) = [] \<longleftrightarrow> (\<forall>x \<in> set xs. P x)"
proof
  assume a: "dropWhile P (rev (dropWhile P xs)) = []"
  have all: "\<forall>y \<in> set (dropWhile P xs). P y"
    using a by (metis dropWhile_eq_Nil_conv set_rev)
  have "dropWhile P xs = []"
  proof (rule ccontr)
    assume n: "dropWhile P xs \<noteq> []"
    then have "\<not> P (hd (dropWhile P xs))" by (rule hd_dropWhile)
    moreover have "hd (dropWhile P xs) \<in> set (dropWhile P xs)" using n by simp
    ultimately show False using all by blast
  qed
  then show "\<forall>x \<in> set xs. P x" by (metis dropWhile_eq_Nil_conv)
next
  assume "\<forall>x \<in> set xs. P x"
  then have "dropWhile P xs = []" by (metis dropWhile_eq_Nil_conv)
  then show "dropWhile P (rev (dropWhile P xs)) = []"
    by (metis dropWhile.simps(1) rev.simps(1))
qed

lemma py_strip_empty:
  "(text = [] \<or> py_strip text = []) = (\<forall>c \<in> set text. is_space c)"
proof -
  have "py_strip text = [] \<longleftrightarrow> dropWhile is_space (rev (dropWhile is_space text)) = []"
    by (simp add: py_strip_def)
  then have "py_strip text = [] \<longleftrightarrow> (\<forall>c \<in> set text. is_space c)"
    by (simp only: strip_all_space)
  then show ?thesis by auto
qed

text \<open>
  C8, as stated, fails: with an empty text and a chunker name that is not available,
  the error is the one of the unavailable chunker, not "Text cannot be empty".
\<close>

theorem C8_empty_text_unavailable_chunker:
  "PDFStract_chunk_text_async sample_chunkers [] ''nope'' []
     = Inl (ValueError ''Chunker 'nope' not available. Available: ['token']'')
   \<and> PDFStract_chunk_text_async sample_chunkers [] ''nope'' []
     \<noteq> Inl (ValueError ''Text cannot be empty'')"
  by (simp add: PDFStract_chunk_text_async_def sample_chunkers_def chunker_not_available_def
      py_repr_list_def py_repr_def repr_char_def apos_def Let_def)

text \<open>
  C8, amended. The order is: resolve the name (\<open>auto\<close> gives the default chunker, and
  raises when there is none), then check that the resolved name is available, then
  check that the text is not empty or all whitespace, then dispatch. An unavailable
  name is reported whatever the text is; the empty-text \<open>ValueError\<close> is raised only for
  an available chunker.
\<close>

theorem C8_chunk_check_order:
  "(chunker = ''auto'' \<and> get_default_chunker cf = None \<longrightarrow>
      PDFStract_chunk_text_async cf text chunker kwargs
        = Inl (ValueError ''No available chunkers found for auto-selection''))
   \<and> ((if chunker = ''auto'' then get_default_chunker cf else Some chunker) = Some resolved \<longrightarrow>
        (resolved \<notin> set (list_available_chunkers cf) \<longrightarrow>
           PDFStract_chunk_text_async cf text chunker kwargs
             = Inl (chunker_not_available resolved (list_available_chunkers cf)))
      \<and> (resolved \<in> set (list_available_chunkers cf) \<and> (\<forall>c \<in> set text. is_space c) \<longrightarrow>
           PDFStract_chunk_text_async cf text chunker kwargs
             = Inl (ValueError ''Text cannot be empty''))
      \<and> (resolved \<in> set (list_available_chunkers cf) \<and> (\<exists>c \<in> set text. \<not> is_space c) \<longrightarrow>
           PDFStract_chunk_text_async cf text chunker kwargs
             = map_sum id (to_dict cf) (chunk_with_result cf resolved text kwargs)))"
proof -
  have s: "(text = [] \<or> py_strip text = []) = (\<forall>c \<in> set text. is_space c)"
    by (rule py_strip_empty)
  show ?thesis
    unfolding PDFStract_chunk_text_async_def Let_def s
    by (auto split: option.splits if_splits)
qed

theorem C8_chunk_check_order_witness:
  "PDFStract_chunk_text_async no_chunkers ''some text'' ''auto'' []
     = Inl (ValueError ''No available chunkers found for auto-selection'')
   \<and> PDFStract_chunk_text_async sample_chunkers ''  '' ''nope'' []
     = Inl (ValueError ''Chunker 'nope' not available. Available: ['token']'')
   \<and> PDFStract_chunk_text_async sample_chunkers ''  '' ''auto'' []
     = Inl (ValueError ''Text cannot be empty'')
   \<and> PDFStract_chunk_text_async sample_chunkers '' a '' ''token'' []
     = Inr ['' a '']"
proof -
  have a: "get_default_chunker no_chunkers = None" by (simp add: no_chunkers_def)
  have av: "list_available_chunkers sample_chunkers = [''token'']"
    by (simp add: sample_chunkers_def)
  have d: "get_default_chunker sample_chunkers = Some ''token''"
    by (simp add: sample_chunkers_def)
  have sp: "\<forall>c \<in> set ''  ''. is_space c" by (simp add: is_space_def)
  have nsp: "\<exists>c \<in> set '' a ''. \<not> is_space c" by (simp add: is_space_def)
  have m: "chunker_not_available ''nope'' [''token'']
             = ValueError ''Chunker 'nope' not available. Available: ['token']''"
    by (simp add: chunker_not_available_def py_repr_list_def py_repr_def repr_char_def apos_def Let_def)
  have r: "map_sum id (to_dict sample_chunkers)
             (chunk_with_result sample_chunkers ''token'' '' a '' []) = Inr ['' a '']"
    by (simp add: sample_chunkers_def)
  show ?thesis
    using a av d sp nsp m r
      C8_chunk_check_order [of "''auto''" no_chunkers "''some text''" "[]"]
      C8_chunk_check_order [of "''nope''" sample_chunkers "''  ''" "[]" "''nope''"]
      C8_chunk_check_order [of "''auto''" sample_chunkers "''  ''" "[]" "''token''"]
      C8_chunk_check_order [of "''token''" sample_chunkers "'' a ''" "[]" "''token''"]
    by simp
qed

section \<open>The download lifecycle\<close>

lemma MinerU_prepare_noop:
  "MinerU_download_status self = NOT_REQUIRED
   \<and> MinerU_prepare env self = (MinerU_available env self, self)
   \<and> MinerU_prepare env (snd (MinerU_prepare env self)) = MinerU_prepare env self"
  by (simp add: MinerU_prepare_def MinerU_download_status_def MinerU_available_def)

lemma lifecycle_prepare_from_pending:
  "lc_download_status b = PENDING \<Longrightarrow>
   lc_download_attempts (snd (lifecycle_prepare outcome b)) = lc_download_attempts b + 1
   \<and> lc_download_status (snd (lifecycle_prepare outcome b))
       = (case outcome of None \<Rightarrow> READY | Some err \<Rightarrow> FAILED)"
  by (simp add: lifecycle_prepare_def start_download_def finish_download_def Let_def
      split: option.splits)

text \<open>
  C9. For a backend whose download status is \<open>READY\<close> or \<open>NOT_REQUIRED\<close>, \<open>prepare()\<close>
  returns the current availability and leaves the backend as it is: the status, the
  error and the number of downloads started are the same, and a second call, whatever
  a download would end with, gives the same again. The MinerU converter of the sources
  is such a backend in every state: its \<open>prepare\<close> returns \<open>MINERU_AVAILABLE\<close>, changes
  nothing, and is the lifecycle's \<open>prepare\<close> on it.
\<close>

theorem C9_prepare_noop:
  "(lc_download_status b = READY \<or> lc_download_status b = NOT_REQUIRED \<longrightarrow>
      lifecycle_prepare outcome b = (lifecycle_available b, b)
      \<and> lifecycle_prepare outcome' (snd (lifecycle_prepare outcome b))
          = lifecycle_prepare outcome b
      \<and> lc_download_attempts (snd (lifecycle_prepare outcome b)) = lc_download_attempts b
      \<and> lc_download_status (snd (lifecycle_prepare outcome b)) = lc_download_status b)
   \<and> MinerU_download_status self = NOT_REQUIRED
   \<and> MinerU_prepare env self = (MinerU_available env self, self)
   \<and> MinerU_prepare env (snd (MinerU_prepare env self)) = MinerU_prepare env self
   \<and> lifecycle_prepare outcome (MinerU_lifecycle env self)
       = (fst (MinerU_prepare env self),
          MinerU_lifecycle env (snd (MinerU_prepare env self)))"
proof -
  have spec: "lc_download_status b = READY \<or> lc_download_status b = NOT_REQUIRED \<longrightarrow>
      lifecycle_prepare outcome b = (lifecycle_available b, b)
      \<and> lifecycle_prepare outcome' (snd (lifecycle_prepare outcome b))
          = lifecycle_prepare outcome b
      \<and> lc_download_attempts (snd (lifecycle_prepare outcome b)) = lc_download_attempts b
      \<and> lc_download_status (snd (lifecycle_prepare outcome b)) = lc_download_status b"
    by (auto simp: lifecycle_prepare_def)
  have code: "MinerU_download_status self = NOT_REQUIRED
      \<and> MinerU_prepare env self = (MinerU_available env self, self)
      \<and> MinerU_prepare env (snd (MinerU_prepare env self)) = MinerU_prepare env self"
    by (rule MinerU_prepare_noop)
  have refines: "lifecycle_prepare outcome (MinerU_lifecycle env self)
       = (fst (MinerU_prepare env self),
          MinerU_lifecycle env (snd (MinerU_prepare env self)))"
    by (simp add: lifecycle_prepare_def MinerU_lifecycle_def MinerU_download_status_def
        MinerU_prepare_def MinerU_available_def lifecycle_available_def)
  from spec code refines show ?thesis by blast
qed

theorem C9_prepare_noop_witness:
  "lifecycle_prepare None pending_backend
     = (True, pending_backend\<lparr>lc_download_status := READY, lc_download_attempts := 1\<rparr>)
   \<and> lifecycle_prepare (Some ''network down'')
         (pending_backend\<lparr>lc_download_status := READY, lc_download_attempts := 1\<rparr>)
     = (True, pending_backend\<lparr>lc_download_status := READY, lc_download_attempts := 1\<rparr>)
   \<and> lc_download_attempts
         (snd (lifecycle_prepare (Some ''network down'')
                 (pending_backend\<lparr>lc_download_status := READY,
                                   lc_download_attempts := 1\<rparr>))) = 1"
proof -
  let ?ready = "pending_backend\<lparr>lc_download_status := READY, lc_download_attempts := 1\<rparr>"
  have first: "lifecycle_prepare None pending_backend = (True, ?ready)"
    by (simp add: lifecycle_prepare_def pending_backend_def start_download_def
        finish_download_def lifecycle_available_def)
  have h: "lc_download_status ?ready = READY \<or> lc_download_status ?ready = NOT_REQUIRED"
    by simp
  have a: "lifecycle_available ?ready"
    by (simp add: lifecycle_available_def pending_backend_def)
  show ?thesis
    using first h a
      C9_prepare_noop [of ?ready "Some ''network down''" "Some ''network down''"]
    by simp
qed

end
